theory Spec2Isabelle
  imports Complex_Main "HOL-Library.Sublist"
begin

section \<open>Python values used by the plugin\<close>

text \<open>
  A Python \<open>str\<close> is a sequence of Unicode code points, so it is modelled as a list of
  naturals; \<open>ascii\<close> embeds an ASCII literal. The command prefix and the reply texts of
  the plugin are Chinese, which is why bytes would not do.
\<close>

type_synonym pystr = "nat list"

definition ascii :: "string \<Rightarrow> pystr" where
  "ascii s = map of_char s"

text \<open>
  A Python \<open>float\<close> is modelled by its value: a real number, one of the two infinities,
  or not-a-number. Finite arithmetic is the arithmetic of the reals (binary rounding is
  left out); comparisons and subtraction treat the three special values as IEEE 754
  does, because \<open>float("nan")\<close> and \<open>float("inf")\<close> are inputs the threshold command
  can receive.
\<close>

datatype pyfloat = Fin real | PInf | NInf | NaN

fun pf_less :: "pyfloat \<Rightarrow> pyfloat \<Rightarrow> bool" where
  "pf_less NaN _ = False"
| "pf_less _ NaN = False"
| "pf_less (Fin a) (Fin b) = (a < b)"
| "pf_less PInf _ = False"
| "pf_less _ PInf = True"
| "pf_less _ NInf = False"
| "pf_less NInf _ = True"

fun pf_ge :: "pyfloat \<Rightarrow> pyfloat \<Rightarrow> bool" where
  "pf_ge NaN _ = False"
| "pf_ge _ NaN = False"
| "pf_ge (Fin a) (Fin b) = (a \<ge> b)"
| "pf_ge PInf _ = True"
| "pf_ge _ NInf = True"
| "pf_ge _ PInf = False"
| "pf_ge NInf _ = False"

fun pf_sub :: "pyfloat \<Rightarrow> pyfloat \<Rightarrow> pyfloat" where
  "pf_sub NaN _ = NaN"
| "pf_sub _ NaN = NaN"
| "pf_sub (Fin a) (Fin b) = Fin (a - b)"
| "pf_sub PInf PInf = NaN"
| "pf_sub NInf NInf = NaN"
| "pf_sub PInf _ = PInf"
| "pf_sub NInf _ = NInf"
| "pf_sub _ PInf = NInf"
| "pf_sub _ NInf = PInf"

section \<open>Configuration and plugin state\<close>

text \<open>
  \<open>self.config\<close> is a dictionary; each key the plugin reads is a field that is \<open>None\<close>
  when the key is missing. \<open>load_config\<close> of the host framework returns no dictionary
  or a dictionary, hence \<open>config option\<close> at construction.
\<close>

record config =
  auto_session_warning_enabled :: "bool option"
  auto_session_warning_threshold :: "pyfloat option"
  auto_session_warning_target :: "pystr option"
  api_host :: "pystr option"
  api_port :: "nat option"
  api_path_prefix :: "pystr option"
  cfg_session_duration_hours :: "pyfloat option"
  cfg_check_interval_hours :: "pyfloat option"

definition empty_config :: config where
  "empty_config = \<lparr> auto_session_warning_enabled = None,
     auto_session_warning_threshold = None, auto_session_warning_target = None,
     api_host = None, api_port = None, api_path_prefix = None,
     cfg_session_duration_hours = None, cfg_check_interval_hours = None \<rparr>"

definition load_default_config :: config where
  "load_default_config = \<lparr> auto_session_warning_enabled = Some True,
     auto_session_warning_threshold = Some (Fin 2),
     auto_session_warning_target = Some [],
     api_host = Some (ascii ''127.0.0.1''), api_port = Some 9000,
     api_path_prefix = Some (ascii ''/VXAPI''),
     cfg_session_duration_hours = Some (Fin 72),
     cfg_check_interval_hours = Some (Fin 2) \<rparr>"

text \<open>
  The fields of the plugin object. \<open>threads_started\<close> counts the background threads
  launched so far (the source keeps only the handle of the last one), and
  \<open>saved_config\<close> is what \<open>save_config\<close> last wrote to the plugin's \<open>config.json\<close>.
\<close>

record plugin =
  config :: config
  warning_enabled :: bool
  warning_threshold :: pyfloat
  warning_target :: pystr
  session_duration_hours :: pyfloat
  check_interval_hours :: pyfloat
  is_running :: bool
  threads_started :: nat
  last_warning_time :: real
  current_wxid :: pystr
  current_device_id :: pystr
  saved_config :: "config option"

definition dict_get :: "'a option \<Rightarrow> 'a \<Rightarrow> 'a" where
  "dict_get field dflt = (case field of None \<Rightarrow> dflt | Some v \<Rightarrow> v)"

definition start_background_check :: "plugin \<Rightarrow> plugin" where
  "start_background_check p =
     (if is_running p then p
      else p\<lparr> is_running := True, threads_started := Suc (threads_started p) \<rparr>)"

definition stop_background_check :: "plugin \<Rightarrow> plugin" where
  "stop_background_check p = p\<lparr> is_running := False \<rparr>"

definition init :: "config option \<Rightarrow> plugin" where
  "init loaded =
     (let cfg = (case loaded of None \<Rightarrow> load_default_config
                 | Some c \<Rightarrow> if c = empty_config then load_default_config else c);
          p = \<lparr> config = cfg,
                warning_enabled = dict_get (auto_session_warning_enabled cfg) True,
                warning_threshold = dict_get (auto_session_warning_threshold cfg) (Fin 2),
                warning_target = dict_get (auto_session_warning_target cfg) [],
                session_duration_hours = dict_get (cfg_session_duration_hours cfg) (Fin 72),
                check_interval_hours = dict_get (cfg_check_interval_hours cfg) (Fin 2),
                is_running = False,
                threads_started = 0,
                last_warning_time = 0,
                current_wxid = [],
                current_device_id = [],
                saved_config = loaded \<rparr>
      in if warning_enabled p then start_background_check p else p)"

section \<open>The external state files\<close>

text \<open>
  \<open>wx849_device_info.json\<close> and the three \<open>login_stat.json\<close> fallbacks. A file is absent,
  or cannot be read as a JSON object (\<open>open\<close>, \<open>json.load\<close> or \<open>.get\<close> raises), or is a
  JSON object of which the plugin reads three keys. A value of \<open>login_time\<close> is a number
  (JSON \<open>true\<close> and \<open>false\<close> count as 1 and 0, as in Python), a string, or something
  else that Python will not compare with \<open>0\<close>.
\<close>

datatype jval = JNum real | JStr pystr | JOther

record device_info =
  wxid :: "pystr option"
  device_id :: "pystr option"
  login_time :: "jval option"

datatype state_file = Absent | Malformed | Json device_info

record state_files =
  device_info_file :: state_file
  possible_paths :: "state_file list"

datatype 'a probe = Found 'a | NotHere | Raised

text \<open>
  One read of \<open>login_time\<close>: \<open>get("login_time", 0)\<close> and the test \<open>> 0\<close>, which raises
  \<open>TypeError\<close> on a string or on \<open>null\<close>. The timestamp is kept as Unix seconds:
  \<open>datetime.fromtimestamp\<close> and \<open>datetime.now\<close> are both local naive times, so their
  difference is the difference of the timestamps (timestamps are taken inside the range
  that \<open>fromtimestamp\<close> accepts).
\<close>

fun probe_login_time :: "state_file \<Rightarrow> real probe" where
  "probe_login_time Absent = NotHere"
| "probe_login_time Malformed = Raised"
| "probe_login_time (Json d) =
     (case login_time d of
        None \<Rightarrow> NotHere
      | Some (JNum t) \<Rightarrow> if t > 0 then Found t else NotHere
      | Some _ \<Rightarrow> Raised)"

fun probe_paths :: "state_file list \<Rightarrow> real option" where
  "probe_paths [] = None"
| "probe_paths (f # fs) =
     (case probe_login_time f of
        Found t \<Rightarrow> Some t
      | NotHere \<Rightarrow> probe_paths fs
      | Raised \<Rightarrow> None)"

definition get_real_login_time :: "state_files \<Rightarrow> real option" where
  "get_real_login_time fs =
     (case probe_login_time (device_info_file fs) of
        Found t \<Rightarrow> Some t
      | Raised \<Rightarrow> None
      | NotHere \<Rightarrow> probe_paths (possible_paths fs))"

definition load_current_login_info :: "state_files \<Rightarrow> plugin \<Rightarrow> plugin" where
  "load_current_login_info fs p =
     (case device_info_file fs of
        Json d \<Rightarrow> p\<lparr> current_wxid := dict_get (wxid d) [],
                      current_device_id := dict_get (device_id d) [] \<rparr>
      | _ \<Rightarrow> p)"

section \<open>The expiry evaluator\<close>

definition online_hours :: "real \<Rightarrow> real \<Rightarrow> real" where
  "online_hours now login = (now - login) / 3600"

definition remaining_hours :: "plugin \<Rightarrow> real \<Rightarrow> real \<Rightarrow> pyfloat" where
  "remaining_hours p now login =
     pf_sub (session_duration_hours p) (Fin (online_hours now login))"

text \<open>
  \<open>_should_send_warning\<close>; \<open>now\<close> is the reading of \<open>datetime.now()\<close> (as Unix seconds)
  and \<open>current_time\<close> the later reading of \<open>time.time()\<close>. Every exception inside is
  caught by the function and gives \<open>False\<close>.
\<close>

definition should_send_warning :: "plugin \<Rightarrow> state_files \<Rightarrow> real \<Rightarrow> real \<Rightarrow> bool" where
  "should_send_warning p fs now current_time =
     (if \<not> warning_enabled p \<or> warning_target p = [] then False
      else case get_real_login_time fs of
        None \<Rightarrow> False
      | Some login \<Rightarrow>
          (let trigger_hours = pf_sub (session_duration_hours p) (warning_threshold p)
           in if pf_ge (Fin (online_hours now login)) trigger_hours
              then (if current_time - last_warning_time p > 3600 then True else False)
              else False))"

section \<open>Formatting numbers\<close>

text \<open>
  \<open>str_nat\<close> is the decimal numeral of a natural number (48 is the code point of the
  digit zero). \<open>format_fixed d x\<close> is the format specification \<open>:.df\<close> applied to \<open>x\<close>:
  the value is rounded to \<open>d\<close> decimals, ties to even, the sign is kept even when the
  rounded value is zero, and \<open>d = 0\<close> prints no decimal point.
\<close>

function str_nat :: "nat \<Rightarrow> pystr" where
  "str_nat n = (if n < 10 then [48 + n] else str_nat (n div 10) @ [48 + n mod 10])"
  by pat_completeness auto
termination
  by (relation "measure id") auto

declare str_nat.simps [simp del]

definition round_half_even :: "real \<Rightarrow> int" where
  "round_half_even x =
     (let f = \<lfloor>x\<rfloor>; d = x - of_int f
      in if d < 1 / 2 then f
         else if d > 1 / 2 then f + 1
         else if even f then f else f + 1)"

definition zfill :: "nat \<Rightarrow> pystr \<Rightarrow> pystr" where
  "zfill w s = replicate (w - length s) 48 @ s"

definition format_fixed :: "nat \<Rightarrow> pyfloat \<Rightarrow> pystr" where
  "format_fixed prec x =
     (case x of
        NaN \<Rightarrow> ascii ''nan''
      | PInf \<Rightarrow> ascii ''inf''
      | NInf \<Rightarrow> ascii ''-inf''
      | Fin r \<Rightarrow>
          (let n = nat (round_half_even (\<bar>r\<bar> * 10 ^ prec));
               body = str_nat (n div 10 ^ prec) @
                 (if prec = 0 then [] else 46 # zfill prec (str_nat (n mod 10 ^ prec)))
           in if r < 0 then 45 # body else body))"

section \<open>Texts\<close>

text \<open>
  The texts the plugin composes, one constructor for each literal or f-string of the
  source, with the formatted fields as arguments:
  \<^item> \<open>NoLoginInfo\<close>: the current login information cannot be obtained (lines 151, 332);
  \<^item> \<open>NoLoginTime\<close>: the login time cannot be obtained (lines 159, 340);
  \<^item> \<open>StatusRemaining online remaining\<close>: the status report of lines 174-178;
  \<^item> \<open>StatusExpired online\<close>: the status report of lines 180-184;
  \<^item> \<open>TestText online remaining\<close>: the test message of lines 352-358;
  \<^item> \<open>AutoWarningText online remaining\<close>: the automatic warning of lines 695-701;
  \<^item> \<open>ThresholdFormatError\<close>, \<open>ThresholdUnitError\<close>, \<open>ThresholdNotNumber\<close>,
    \<open>ThresholdRangeError\<close>: the four literals of lines 276, 283, 291 and 297;
  \<^item> \<open>ThresholdAdjusted threshold trigger\<close>: the confirmation of lines 309-312.
\<close>

datatype reply_text =
    NoLoginInfo
  | NoLoginTime
  | StatusRemaining pystr pystr
  | StatusExpired pystr
  | TestText pystr pystr
  | AutoWarningText pystr pystr
  | ThresholdFormatError
  | ThresholdUnitError
  | ThresholdNotNumber
  | ThresholdRangeError
  | ThresholdAdjusted pyfloat pyfloat

section \<open>Status query\<close>

definition handle_status_query :: "state_files \<Rightarrow> real \<Rightarrow> plugin \<Rightarrow> plugin \<times> reply_text" where
  "handle_status_query fs now p =
     (let p1 = load_current_login_info fs p
      in if current_wxid p1 = [] then (p1, NoLoginInfo)
         else case get_real_login_time fs of
           None \<Rightarrow> (p1, NoLoginTime)
         | Some login \<Rightarrow>
             (let online = Fin (online_hours now login);
                  remaining = remaining_hours p1 now login
              in if pf_less (Fin 0) remaining
                 then (p1, StatusRemaining (format_fixed 1 online) (format_fixed 1 remaining))
                 else (p1, StatusExpired (format_fixed 1 online))))"

section \<open>Threshold command\<close>

text \<open>
  \<open>str.split()\<close> with no argument cuts at runs of white space and drops empty pieces;
  \<open>is_space\<close> lists the code points for which \<open>str.isspace\<close> holds.
\<close>

definition is_space :: "nat \<Rightarrow> bool" where
  "is_space c = ((9 \<le> c \<and> c \<le> 13) \<or> (28 \<le> c \<and> c \<le> 32) \<or> c = 133 \<or> c = 160
     \<or> c = 5760 \<or> (8192 \<le> c \<and> c \<le> 8202) \<or> c = 8232 \<or> c = 8233 \<or> c = 8239
     \<or> c = 8287 \<or> c = 12288)"

fun split_ws :: "pystr \<Rightarrow> pystr \<Rightarrow> pystr list" where
  "split_ws cur [] = (if cur = [] then [] else [cur])"
| "split_ws cur (c # cs) =
     (if is_space c then (if cur = [] then split_ws [] cs else cur # split_ws [] cs)
      else split_ws (cur @ [c]) cs)"

definition py_split :: "pystr \<Rightarrow> pystr list" where
  "py_split s = split_ws [] s"

text \<open>
  \<open>str.lower()\<close> on the ASCII letters. Python also lowers letters outside ASCII; none
  of them becomes \<open>h\<close> or a character of a float literal, so the command gives the same
  answer with this function.
\<close>

definition lower :: "pystr \<Rightarrow> pystr" where
  "lower s = map (\<lambda>c. if 65 \<le> c \<and> c \<le> 90 then c + 32 else c) s"

definition endswith_h :: "pystr \<Rightarrow> bool" where
  "endswith_h s = (s \<noteq> [] \<and> last s = 104)"

text \<open>
  The built-in \<open>float\<close> on a string without white space: an optional sign, then
  \<open>inf\<close>, \<open>infinity\<close>, \<open>nan\<close> or a decimal literal with an optional fraction and an
  optional exponent; single underscores may separate digits. The digits are the ASCII
  digits. \<open>None\<close> is \<open>ValueError\<close>.
\<close>

definition is_digit :: "nat \<Rightarrow> bool" where
  "is_digit c = (48 \<le> c \<and> c \<le> 57)"

fun strip_underscores :: "bool \<Rightarrow> pystr \<Rightarrow> pystr" where
  "strip_underscores after_digit [] = []"
| "strip_underscores after_digit (c # cs) =
     (if c = 95 \<and> after_digit \<and> (case cs of [] \<Rightarrow> False | d # _ \<Rightarrow> is_digit d)
      then strip_underscores False cs
      else c # strip_underscores (is_digit c) cs)"

definition digits_value :: "pystr \<Rightarrow> nat" where
  "digits_value ds = foldl (\<lambda>a d. 10 * a + (d - 48)) 0 ds"

definition parse_exponent :: "pystr \<Rightarrow> int option" where
  "parse_exponent s =
     (case s of
        [] \<Rightarrow> Some 0
      | c # cs \<Rightarrow>
          if c \<noteq> 101 then None
          else (let neg = (cs \<noteq> [] \<and> hd cs = 45);
                    ds = (if cs \<noteq> [] \<and> (hd cs = 43 \<or> hd cs = 45) then tl cs else cs)
                in if ds \<noteq> [] \<and> list_all is_digit ds
                   then Some (if neg then - int (digits_value ds) else int (digits_value ds))
                   else None))"

definition parse_decimal :: "pystr \<Rightarrow> real option" where
  "parse_decimal s =
     (let ip = takeWhile is_digit s;
          r1 = dropWhile is_digit s;
          has_point = (r1 \<noteq> [] \<and> hd r1 = 46);
          fp = (if has_point then takeWhile is_digit (tl r1) else []);
          r2 = (if has_point then dropWhile is_digit (tl r1) else r1)
      in if ip = [] \<and> fp = [] then None
         else case parse_exponent r2 of
           None \<Rightarrow> None
         | Some e \<Rightarrow>
             Some ((real (digits_value ip) + real (digits_value fp) / 10 ^ length fp)
                   * (if e < 0 then 1 / 10 ^ nat (- e) else 10 ^ nat e)))"

definition py_float :: "pystr \<Rightarrow> pyfloat option" where
  "py_float s0 =
     (let s = strip_underscores False s0;
          neg = (s \<noteq> [] \<and> hd s = 45);
          body = (if s \<noteq> [] \<and> (hd s = 43 \<or> hd s = 45) then tl s else s)
      in if body = ascii ''inf'' \<or> body = ascii ''infinity''
         then Some (if neg then NInf else PInf)
         else if body = ascii ''nan'' then Some NaN
         else case parse_decimal body of
           None \<Rightarrow> None
         | Some v \<Rightarrow> Some (Fin (if neg then - v else v)))"

definition save_config :: "config \<Rightarrow> plugin \<Rightarrow> plugin" where
  "save_config c p = p\<lparr> saved_config := Some c \<rparr>"

definition handle_threshold_setting :: "pystr \<Rightarrow> plugin \<Rightarrow> plugin \<times> reply_text" where
  "handle_threshold_setting content p =
     (let parts = py_split content
      in if length parts \<noteq> 2 then (p, ThresholdFormatError)
         else let threshold_str = lower (parts ! 1)
           in if \<not> endswith_h threshold_str then (p, ThresholdUnitError)
              else case py_float (butlast threshold_str) of
                None \<Rightarrow> (p, ThresholdNotNumber)
              | Some threshold \<Rightarrow>
                  if pf_less threshold (Fin 0) \<or> pf_less (Fin 72) threshold
                  then (p, ThresholdRangeError)
                  else (let cfg = (config p)\<lparr> auto_session_warning_threshold := Some threshold \<rparr>;
                            p1 = p\<lparr> warning_threshold := threshold, config := cfg \<rparr>
                        in (save_config cfg p1,
                            ThresholdAdjusted threshold (pf_sub (Fin 72) threshold))))"

text \<open>The command prefix of line 130, a dollar sign and four Chinese characters.\<close>

definition threshold_command :: pystr where
  "threshold_command = [36, 39044, 35686, 38408, 20540]"

section \<open>The backend and the scratch directory\<close>

text \<open>
  What the HTTP backend answers to one request: no response at all (the connection
  fails or the timeout expires, so the \<open>post\<close> or \<open>get\<close> raises), or a status code with
  a body. The body of \<open>SendTxt\<close> and \<open>UploadImg\<close> either cannot be read as a JSON object
  (\<open>response.json()\<close> or \<open>.get\<close> raises) or carries the truth value of its \<open>Success\<close>
  key. The body of \<open>GetQR\<close> carries \<open>Success\<close> and \<open>Data\<close>; \<open>Data\<close> is \<open>None\<close> here when it
  is not a dictionary (then \<open>data.get\<close> raises), otherwise its \<open>QrUrl\<close> and \<open>Uuid\<close>, each
  the empty string when missing. For the image download the body is what becomes of the
  scratch file: written, never created (\<open>makedirs\<close> or \<open>open\<close> raises), or created and
  then an exception while reading the response or writing.
\<close>

datatype 'b response = NoResponse | Status nat 'b

datatype body = Unparsable | Success bool

datatype qr_body = QrUnparsable | QrResult bool "(pystr \<times> pystr) option"

datatype save_outcome = Saved | NotCreated | CreatedThenRaised

text \<open>
  Everything one run of the warning workflow reads from outside the plugin: the state
  files, the clock readings in the order the source takes them, the four responses of
  the backend, and whether \<open>os.remove\<close> raises.
\<close>

record env =
  files :: state_files
  eval_now :: real
  eval_time :: real
  send_now :: real
  download_time :: real
  fire_time :: real
  send_txt :: "body response"
  get_qr :: "qr_body response"
  qr_download :: "save_outcome response"
  upload_img :: "body response"
  remove_raises :: bool
  run_raises :: bool
  stop_after :: "nat option"

text \<open>
  The observable steps, in the order they happen: the requests sent to the backend, the
  sleeps, the log entry of the loop's exception handler, and the removal of a scratch
  file. \<open>Sleeps k\<close> is \<open>k\<close> consecutive calls of \<open>time.sleep(1)\<close>.
\<close>

datatype action =
    PostSendTxt pystr reply_text
  | Sleep nat
  | Sleeps nat
  | PostGetQR
  | GetImage pystr
  | PostUploadImg pystr pystr
  | Remove pystr
  | LogLoopError

record world =
  plugin :: plugin
  tmp_files :: "pystr set"
  trace :: "action list"

definition emit :: "action \<Rightarrow> world \<Rightarrow> world" where
  "emit a w = w\<lparr> trace := trace w @ [a] \<rparr>"

definition ensure_login_info :: "env \<Rightarrow> world \<Rightarrow> world" where
  "ensure_login_info e w =
     (if current_wxid (plugin w) = []
      then w\<lparr> plugin := load_current_login_info (files e) (plugin w) \<rparr>
      else w)"

section \<open>Sending\<close>

definition send_text_message :: "env \<Rightarrow> pystr \<Rightarrow> reply_text \<Rightarrow> world \<Rightarrow> bool \<times> world" where
  "send_text_message e to_wxid content w =
     (let w1 = emit (PostSendTxt to_wxid content) (ensure_login_info e w)
      in case send_txt e of
           NoResponse \<Rightarrow> (False, w1)
         | Status code b \<Rightarrow>
             if code = 200
             then (case b of Unparsable \<Rightarrow> (False, w1) | Success s \<Rightarrow> (s, w1))
             else (False, w1))"

definition qr_image_path :: "env \<Rightarrow> pystr \<Rightarrow> pystr" where
  "qr_image_path e uuid =
     ascii ''tmp/qr_'' @ uuid @ ascii ''_'' @ str_nat (nat \<lfloor>download_time e\<rfloor>) @ ascii ''.png''"

definition download_qr_image :: "env \<Rightarrow> pystr \<Rightarrow> pystr \<Rightarrow> world \<Rightarrow> pystr option \<times> world" where
  "download_qr_image e qr_url uuid w =
     (let w1 = emit (GetImage qr_url) w
      in case qr_download e of
           NoResponse \<Rightarrow> (None, w1)
         | Status code outcome \<Rightarrow>
             if code = 200
             then (let image_path = qr_image_path e uuid
                   in case outcome of
                        Saved \<Rightarrow>
                          (Some image_path, w1\<lparr> tmp_files := insert image_path (tmp_files w1) \<rparr>)
                      | NotCreated \<Rightarrow> (None, w1)
                      | CreatedThenRaised \<Rightarrow>
                          (None, w1\<lparr> tmp_files := insert image_path (tmp_files w1) \<rparr>))
             else (None, w1))"

definition send_image_message :: "env \<Rightarrow> pystr \<Rightarrow> pystr \<Rightarrow> world \<Rightarrow> bool \<times> world" where
  "send_image_message e to_wxid image_path w =
     (let w1 = ensure_login_info e w
      in if image_path \<notin> tmp_files w1 then (False, w1)
         else let w2 = emit (PostUploadImg to_wxid image_path) w1
           in case upload_img e of
                NoResponse \<Rightarrow> (False, w2)
              | Status code b \<Rightarrow>
                  if code \<noteq> 200 then (False, w2)
                  else (case b of Unparsable \<Rightarrow> (False, w2) | Success s \<Rightarrow> (s, w2)))"

text \<open>
  The clean-up of lines 498-502: the file is removed if it exists; when \<open>os.remove\<close>
  raises, the bare \<open>except\<close> swallows it and the file stays.
\<close>

definition cleanup :: "env \<Rightarrow> pystr \<Rightarrow> world \<Rightarrow> world" where
  "cleanup e image_path w =
     (if image_path \<in> tmp_files w
      then (let w1 = emit (Remove image_path) w
            in if remove_raises e then w1
               else w1\<lparr> tmp_files := tmp_files w1 - {image_path} \<rparr>)
      else w)"

definition send_login_qr_code :: "env \<Rightarrow> pystr \<Rightarrow> world \<Rightarrow> bool \<times> world" where
  "send_login_qr_code e to_wxid w =
     (let w1 = emit PostGetQR w
      in case get_qr e of
           NoResponse \<Rightarrow> (False, w1)
         | Status code b \<Rightarrow>
             if code \<noteq> 200 then (False, w1)
             else (case b of
                 QrUnparsable \<Rightarrow> (False, w1)
               | QrResult ok data \<Rightarrow>
                   if \<not> ok then (False, w1)
                   else (case data of
                       None \<Rightarrow> (False, w1)
                     | Some (qr_url, uuid) \<Rightarrow>
                         if qr_url \<noteq> [] \<and> uuid \<noteq> []
                         then (case download_qr_image e qr_url uuid w1 of
                             (None, w2) \<Rightarrow> (False, w2)
                           | (Some image_path, w2) \<Rightarrow>
                               (case send_image_message e to_wxid image_path w2 of
                                  (success, w3) \<Rightarrow> (success, cleanup e image_path w3)))
                         else (False, w1))))"

section \<open>The automatic warning\<close>

definition send_auto_warning :: "env \<Rightarrow> world \<Rightarrow> world" where
  "send_auto_warning e w =
     (let w1 = w\<lparr> plugin := load_current_login_info (files e) (plugin w) \<rparr>
      in case get_real_login_time (files e) of
           None \<Rightarrow> w1
         | Some login \<Rightarrow>
             (let online = Fin (online_hours (send_now e) login);
                  remaining = remaining_hours (plugin w1) (send_now e) login;
                  warning_text = AutoWarningText (format_fixed 1 online) (format_fixed 1 remaining)
              in case send_text_message e (warning_target (plugin w1)) warning_text w1 of
                   (text_success, w2) \<Rightarrow>
                     if text_success
                     then (case send_login_qr_code e (warning_target (plugin w2)) (emit (Sleep 1) w2) of
                             (qr_success, w3) \<Rightarrow>
                               w3\<lparr> plugin := (plugin w3)\<lparr> last_warning_time := fire_time e \<rparr> \<rparr>)
                     else w2))"

section \<open>The test command\<close>

text \<open>
  The message object of the host framework: the test command answers to \<open>from_user_id\<close>
  when the object has that attribute and to \<open>sender_wxid\<close> otherwise; with neither the
  attribute access raises and the handler's \<open>except\<close> answers \<open>TestFailed\<close>. The second
  component of the result is the recipient of the QR code that the handler's new thread
  will send one second later.
\<close>

record msg =
  from_user_id :: "pystr option"
  sender_wxid :: "pystr option"

datatype test_reply = Reply reply_text | TestFailed

definition handle_warning_test ::
  "state_files \<Rightarrow> real \<Rightarrow> msg \<Rightarrow> plugin \<Rightarrow> plugin \<times> test_reply \<times> pystr option" where
  "handle_warning_test fs now m p =
     (let p1 = load_current_login_info fs p
      in if current_wxid p1 = [] then (p1, Reply NoLoginInfo, None)
         else case get_real_login_time fs of
           None \<Rightarrow> (p1, Reply NoLoginTime, None)
         | Some login \<Rightarrow>
             (let online = Fin (online_hours now login);
                  remaining = remaining_hours p1 now login;
                  test_message = TestText (format_fixed 0 online) (format_fixed 0 remaining)
              in case (case from_user_id m of Some u \<Rightarrow> Some u | None \<Rightarrow> sender_wxid m) of
                   None \<Rightarrow> (p1, TestFailed, None)
                 | Some target_wxid \<Rightarrow> (p1, Reply test_message, Some target_wxid)))"

definition send_qr_code_after_delay :: "env \<Rightarrow> pystr \<Rightarrow> world \<Rightarrow> world" where
  "send_qr_code_after_delay e to_wxid w = snd (send_login_qr_code e to_wxid (emit (Sleep 1) w))"

section \<open>The background loop\<close>

datatype exn = ValueError | OverflowError | RuntimeError

text \<open>
  \<open>int(self.check_interval_hours * 3600)\<close>: the product truncated towards zero;
  \<open>int\<close> raises \<open>ValueError\<close> on not-a-number and \<open>OverflowError\<close> on an infinity.
\<close>

definition interval_seconds :: "pyfloat \<Rightarrow> exn + int" where
  "interval_seconds h =
     (case h of
        Fin r \<Rightarrow> Inr (if r * 3600 < 0 then - \<lfloor>- (r * 3600)\<rfloor> else \<lfloor>r * 3600\<rfloor>)
      | NaN \<Rightarrow> Inl ValueError
      | _ \<Rightarrow> Inl OverflowError)"

text \<open>
  The wait of lines 639-642. \<open>stop_after e = Some k\<close> says that another thread clears
  \<open>is_running\<close> after \<open>k\<close> of the one-second sleeps; the loop then sees the flag cleared
  at its next test and leaves the wait.
\<close>

definition wait_interval :: "env \<Rightarrow> int \<Rightarrow> world \<Rightarrow> world" where
  "wait_interval e n w =
     (case stop_after e of
        Some k \<Rightarrow>
          if int k < n
          then (emit (Sleeps k) w)\<lparr> plugin := stop_background_check (plugin w) \<rparr>
          else emit (Sleeps (nat n)) w
      | None \<Rightarrow> emit (Sleeps (nat n)) w)"

text \<open>
  The body of the \<open>try\<close> of lines 634-642. \<open>run_raises\<close> says that \<open>asyncio.run\<close> itself
  raises (no event loop can be created); \<open>_send_auto_warning\<close> catches its own
  exceptions. The result is the exception that leaves the body, if any, and the world
  at that moment.
\<close>

definition iteration_body :: "env \<Rightarrow> world \<Rightarrow> exn option \<times> world" where
  "iteration_body e w =
     (if should_send_warning (plugin w) (files e) (eval_now e) (eval_time e) \<and> run_raises e
      then (Some RuntimeError, w)
      else let w1 = (if should_send_warning (plugin w) (files e) (eval_now e) (eval_time e)
                     then send_auto_warning e w else w)
        in case interval_seconds (check_interval_hours (plugin w1)) of
             Inl x \<Rightarrow> (Some x, w1)
           | Inr n \<Rightarrow> (None, wait_interval e n w1))"

text \<open>
  The \<open>except\<close> of lines 644-646: a log entry and a sleep of 60 seconds. A stop
  requested meanwhile has cleared the flag when the sleep returns.
\<close>

definition backoff :: "env \<Rightarrow> world \<Rightarrow> world" where
  "backoff e w =
     (let w1 = emit (Sleep 60) (emit LogLoopError w)
      in case stop_after e of
           Some k \<Rightarrow> w1\<lparr> plugin := stop_background_check (plugin w1) \<rparr>
         | None \<Rightarrow> w1)"

definition loop_iteration :: "env \<Rightarrow> world \<Rightarrow> world" where
  "loop_iteration e w =
     (case iteration_body e w of
        (None, w1) \<Rightarrow> w1
      | (Some x, w1) \<Rightarrow> backoff e w1)"

text \<open>
  \<open>_background_check_loop\<close>, run on the inputs of its successive iterations. The loop
  has \<open>Exited\<close> when the test of \<open>while self.is_running\<close> failed; it is \<open>Looping\<close>
  when the inputs given are used up and the test still holds.
\<close>

datatype loop_status = Exited | Looping

fun background_check_loop :: "env list \<Rightarrow> world \<Rightarrow> loop_status \<times> world" where
  "background_check_loop [] w = (if is_running (plugin w) then Looping else Exited, w)"
| "background_check_loop (e # es) w =
     (if is_running (plugin w) then background_check_loop es (loop_iteration e w)
      else (Exited, w))"


section \<open>Concrete inputs\<close>

text \<open>
  The device-information file records a login at Unix time 748000, that is 70 hours and
  100 seconds before 1000100; the fallback files are absent. \<open>ready_plugin\<close> is built
  from the defaults and has a recipient; \<open>warned_plugin\<close> has moreover recorded a
  warning at 1000000.
\<close>

definition login_files :: state_files where
  "login_files = \<lparr> device_info_file = Json \<lparr> wxid = Some (ascii ''wxid_b''), device_id = None,
       login_time = Some (JNum 748000) \<rparr>, possible_paths = [Absent, Absent, Absent] \<rparr>"

definition no_files :: state_files where
  "no_files = \<lparr> device_info_file = Absent, possible_paths = [Absent, Absent, Absent] \<rparr>"

definition ready_plugin :: plugin where
  "ready_plugin = (init None)\<lparr> warning_target := ascii ''wxid_a'' \<rparr>"

definition warned_plugin :: plugin where
  "warned_plugin = ready_plugin\<lparr> last_warning_time := 1000000 \<rparr>"

text \<open>
  A backend that accepts everything, polled at 1000100, and the same backend polled
  3600 seconds later. \<open>text_rejected\<close> answers HTTP 500 to \<open>SendTxt\<close>; \<open>image_rejected\<close>
  accepts the text and answers HTTP 500 to \<open>UploadImg\<close>; \<open>broken_interval\<close> is a plugin
  whose configured poll interval is not a number.
\<close>

definition first_poll :: env where
  "first_poll = \<lparr> files = login_files, eval_now = 1000100, eval_time = 1000100,
     send_now = 1000100, download_time = 1000102, fire_time = 1000103,
     send_txt = Status 200 (Success True),
     get_qr = Status 200 (QrResult True (Some (ascii ''http://qr/1'', ascii ''u1''))),
     qr_download = Status 200 Saved,
     upload_img = Status 200 (Success True),
     remove_raises = False, run_raises = False, stop_after = None \<rparr>"

definition second_poll :: env where
  "second_poll = first_poll\<lparr> eval_now := 1003700, eval_time := 1003700,
     send_now := 1003700, download_time := 1003702, fire_time := 1003703 \<rparr>"

definition text_rejected :: env where
  "text_rejected = first_poll\<lparr> send_txt := Status 500 Unparsable \<rparr>"

definition image_rejected :: env where
  "image_rejected = first_poll\<lparr> upload_img := Status 500 Unparsable \<rparr>"

definition start_world :: world where
  "start_world = \<lparr> plugin = ready_plugin, tmp_files = {}, trace = [] \<rparr>"

definition broken_interval :: world where
  "broken_interval = start_world\<lparr> plugin := ready_plugin\<lparr> check_interval_hours := NaN \<rparr> \<rparr>"

text \<open>The same backend when the workflow reads the clock 70.5 hours after the login.\<close>

definition half_hour_poll :: env where
  "half_hour_poll = first_poll\<lparr> send_now := 1001800 \<rparr>"

section \<open>Construction\<close>

text \<open>
  C10. With no persisted configuration (\<open>load_config\<close> gives nothing, or an empty
  dictionary) the plugin is built with the warning enabled, a threshold of 2 hours, an
  empty recipient, a session lifetime of 72 hours and a poll interval of 2 hours; and
  since it is enabled, construction itself starts the background loop: \<open>is_running\<close> is
  set and exactly one thread has been launched.
\<close>

theorem init_defaults:
  "init None = \<lparr> config = load_default_config, warning_enabled = True,
      warning_threshold = Fin 2, warning_target = [],
      session_duration_hours = Fin 72, check_interval_hours = Fin 2,
      is_running = True, threads_started = 1, last_warning_time = 0,
      current_wxid = [], current_device_id = [], saved_config = None \<rparr>
   \<and> init (Some empty_config) = (init None)\<lparr> saved_config := Some empty_config \<rparr>"
  by (simp add: init_def load_default_config_def dict_get_def start_background_check_def Let_def)

lemmas concrete_defs = login_files_def no_files_def ready_plugin_def warned_plugin_def
  first_poll_def second_poll_def text_rejected_def image_rejected_def start_world_def
  broken_interval_def half_hour_poll_def init_def load_default_config_def dict_get_def
  start_background_check_def ascii_def

lemmas format_defs = format_fixed_def round_half_even_def zfill_def str_nat.simps Let_def

section \<open>The due-evaluation\<close>




section \<open>What the sending functions leave alone\<close>

lemma load_info_keeps:
  "last_warning_time (load_current_login_info fs p) = last_warning_time p"
  "is_running (load_current_login_info fs p) = is_running p"
  "warning_target (load_current_login_info fs p) = warning_target p"
  "session_duration_hours (load_current_login_info fs p) = session_duration_hours p"
  "check_interval_hours (load_current_login_info fs p) = check_interval_hours p"
  by (simp_all add: load_current_login_info_def split: state_file.splits)

lemma ensure_login_info_keeps:
  "last_warning_time (plugin (ensure_login_info e w)) = last_warning_time (plugin w)"
  "is_running (plugin (ensure_login_info e w)) = is_running (plugin w)"
  "warning_target (plugin (ensure_login_info e w)) = warning_target (plugin w)"
  "check_interval_hours (plugin (ensure_login_info e w)) = check_interval_hours (plugin w)"
  "trace (ensure_login_info e w) = trace w"
  "tmp_files (ensure_login_info e w) = tmp_files w"
  by (simp_all add: ensure_login_info_def load_info_keeps)

lemma emit_keeps:
  "plugin (emit a w) = plugin w" "tmp_files (emit a w) = tmp_files w"
  "trace (emit a w) = trace w @ [a]"
  by (simp_all add: emit_def)

lemma send_text_message_keeps:
  assumes "send_text_message e t c w = (b, w')"
  shows "last_warning_time (plugin w') = last_warning_time (plugin w) \<and>
         is_running (plugin w') = is_running (plugin w) \<and>
         warning_target (plugin w') = warning_target (plugin w) \<and>
         check_interval_hours (plugin w') = check_interval_hours (plugin w) \<and>
         trace w' = trace w @ [PostSendTxt t c] \<and>
         tmp_files w' = tmp_files w"
  using assms
  by (auto simp: send_text_message_def Let_def emit_keeps ensure_login_info_keeps
      split: response.splits body.splits if_splits)

lemma send_text_message_success:
  "fst (send_text_message e t c w) \<longleftrightarrow> send_txt e = Status 200 (Success True)"
  by (auto simp: send_text_message_def Let_def split: response.splits body.splits)

lemma download_keeps:
  assumes "download_qr_image e u i w = (r, w')"
  shows "plugin w' = plugin w"
  using assms
  by (auto simp: download_qr_image_def Let_def emit_keeps split: response.splits save_outcome.splits if_splits)

lemma send_image_keeps:
  assumes "send_image_message e t path w = (b, w')"
  shows "is_running (plugin w') = is_running (plugin w) \<and>
         check_interval_hours (plugin w') = check_interval_hours (plugin w) \<and>
         tmp_files w' = tmp_files w"
  using assms
  by (auto simp: send_image_message_def Let_def emit_keeps ensure_login_info_keeps
      split: response.splits body.splits if_splits)

lemma cleanup_keeps: "plugin (cleanup e path w) = plugin w"
  by (simp add: cleanup_def Let_def emit_keeps)

lemma send_login_qr_code_keeps:
  assumes "send_login_qr_code e t w = (b, w')"
  shows "is_running (plugin w') = is_running (plugin w) \<and>
         check_interval_hours (plugin w') = check_interval_hours (plugin w)"
  using assms
  by (auto simp: send_login_qr_code_def Let_def emit_keeps cleanup_keeps
      dest!: download_keeps send_image_keeps
      split: response.splits qr_body.splits option.splits if_splits prod.splits)

lemma send_auto_warning_keeps:
  "is_running (plugin (send_auto_warning e w)) = is_running (plugin w) \<and>
   check_interval_hours (plugin (send_auto_warning e w)) = check_interval_hours (plugin w)"
  by (auto simp: send_auto_warning_def Let_def emit_keeps load_info_keeps
      dest!: send_text_message_keeps send_login_qr_code_keeps
      split: option.splits prod.splits)


lemma send_auto_warning_record:
  "last_warning_time (plugin (send_auto_warning e w)) =
     (if get_real_login_time (files e) \<noteq> None \<and> send_txt e = Status 200 (Success True)
      then fire_time e else last_warning_time (plugin w))"
proof (cases "get_real_login_time (files e)")
  case None
  then show ?thesis by (simp add: send_auto_warning_def load_info_keeps)
next
  case (Some login)
  define w1 where "w1 = w\<lparr> plugin := load_current_login_info (files e) (plugin w) \<rparr>"
  define body0 where "body0 = AutoWarningText (format_fixed 1 (Fin (online_hours (send_now e) login)))
       (format_fixed 1 (remaining_hours (plugin w1) (send_now e) login))"
  obtain ts w2 where r: "send_text_message e (warning_target (plugin w1)) body0 w1 = (ts, w2)"
    by (cases "send_text_message e (warning_target (plugin w1)) body0 w1") auto
  have ts: "ts \<longleftrightarrow> send_txt e = Status 200 (Success True)"
    using send_text_message_success[of e "warning_target (plugin w1)" body0 w1] r by simp
  have k: "last_warning_time (plugin w2) = last_warning_time (plugin w)"
    using send_text_message_keeps[OF r] by (simp add: w1_def load_info_keeps)
  obtain qs w3 where q: "send_login_qr_code e (warning_target (plugin w2)) (emit (Sleep 1) w2) = (qs, w3)"
    by (cases "send_login_qr_code e (warning_target (plugin w2)) (emit (Sleep 1) w2)") auto
  have "send_auto_warning e w =
      (if ts then w3\<lparr> plugin := (plugin w3)\<lparr> last_warning_time := fire_time e \<rparr> \<rparr> else w2)"
    unfolding send_auto_warning_def Let_def Some option.case w1_def[symmetric]
      body0_def[symmetric] r prod.case q by (rule refl)
  then show ?thesis using Some ts k by simp
qed






section \<open>Cooldown\<close>



section \<open>Remaining hours\<close>

lemma probe_paths_absent: "\<forall>f\<in>set ps. f = Absent \<Longrightarrow> probe_paths ps = None"
  by (induction ps) simp_all

lemma login_time_absent:
  "device_info_file fs = Absent \<Longrightarrow> \<forall>f\<in>set (possible_paths fs). f = Absent
   \<Longrightarrow> get_real_login_time fs = None"
  by (simp add: get_real_login_time_def probe_paths_absent)

lemma remaining_hours_load:
  "remaining_hours (load_current_login_info fs p) now login = remaining_hours p now login"
  by (simp add: remaining_hours_def load_info_keeps)



section \<open>Missing state files\<close>

text \<open>
  C8. When \<open>wx849_device_info.json\<close> and every \<open>login_stat.json\<close> fallback are absent, the
  status command and the test command answer that the login information cannot be
  obtained when no identity is cached, and that the login time cannot be obtained when
  an identity is still cached from an earlier read; the test command starts no QR job;
  the due-evaluation is false, and a loop iteration goes straight to its wait without
  sending anything.
\<close>

theorem absent_state_files:
  "device_info_file fs = Absent \<and> (\<forall>f\<in>set (possible_paths fs). f = Absent) \<longrightarrow>
     snd (handle_status_query fs now p) = (if current_wxid p = [] then NoLoginInfo else NoLoginTime)
   \<and> fst (snd (handle_warning_test fs now m p)) =
       Reply (if current_wxid p = [] then NoLoginInfo else NoLoginTime)
   \<and> snd (snd (handle_warning_test fs now m p)) = None
   \<and> \<not> should_send_warning p fs now current_time
   \<and> (files e = fs \<longrightarrow>
        iteration_body e w =
          (case interval_seconds (check_interval_hours (plugin w)) of
             Inl x \<Rightarrow> (Some x, w) | Inr n \<Rightarrow> (None, wait_interval e n w)))"
proof (intro impI)
  assume a: "device_info_file fs = Absent \<and> (\<forall>f\<in>set (possible_paths fs). f = Absent)"
  then have n: "get_real_login_time fs = None" by (simp add: login_time_absent)
  from a have l: "load_current_login_info fs p = p" by (simp add: load_current_login_info_def)
  have s: "\<not> should_send_warning p' fs n' t'" for p' n' t'
    using n by (simp add: should_send_warning_def)
  show "snd (handle_status_query fs now p) = (if current_wxid p = [] then NoLoginInfo else NoLoginTime)
   \<and> fst (snd (handle_warning_test fs now m p)) =
       Reply (if current_wxid p = [] then NoLoginInfo else NoLoginTime)
   \<and> snd (snd (handle_warning_test fs now m p)) = None
   \<and> \<not> should_send_warning p fs now current_time
   \<and> (files e = fs \<longrightarrow>
        iteration_body e w =
          (case interval_seconds (check_interval_hours (plugin w)) of
             Inl x \<Rightarrow> (Some x, w) | Inr n \<Rightarrow> (None, wait_interval e n w)))"
    using n l s by (simp add: handle_status_query_def handle_warning_test_def iteration_body_def)
qed

theorem absent_state_files_witness:
  "snd (handle_status_query no_files 1000100 ready_plugin) = NoLoginInfo
   \<and> snd (handle_status_query no_files 1000100 (ready_plugin\<lparr> current_wxid := ascii ''wxid_b'' \<rparr>))
       = NoLoginTime
   \<and> fst (snd (handle_warning_test no_files 1000100 \<lparr> from_user_id = None, sender_wxid = None \<rparr>
        ready_plugin)) = Reply NoLoginInfo
   \<and> \<not> should_send_warning ready_plugin no_files 1000100 1000100"
  using absent_state_files [of no_files 1000100 ready_plugin
      "\<lparr> from_user_id = None, sender_wxid = None \<rparr>" 1000100 first_poll start_world]
    absent_state_files [of no_files 1000100 "ready_plugin\<lparr> current_wxid := ascii ''wxid_b'' \<rparr>"
      "\<lparr> from_user_id = None, sender_wxid = None \<rparr>" 1000100 first_poll start_world]
  by (simp add: concrete_defs)

section \<open>The threshold command\<close>

lemmas threshold_defs = handle_threshold_setting_def threshold_command_def ascii_def
  py_split_def is_space_def lower_def endswith_h_def py_float_def parse_decimal_def
  parse_exponent_def is_digit_def digits_value_def save_config_def Let_def

text \<open>
  C4. The handler of the threshold command, called with the command followed by
  \<open>2h\<close>, sets the threshold to 2.0 in the plugin, in its configuration and in the
  saved configuration. Followed by \<open>abcs\<close> or by \<open>2\<close> it answers that the unit is
  missing; by \<open>90h\<close> that the value is out of range; by \<open>2h extra\<close> that the format is
  wrong; by \<open>abch\<close> that the value is not a number. The four error texts are distinct,
  and whenever the handler answers with one of them the plugin, and with it the stored
  threshold, is unchanged.
\<close>

theorem handle_threshold_setting_cases:
  "handle_threshold_setting (threshold_command @ ascii '' 2h'') p =
     (p\<lparr> warning_threshold := Fin 2,
         config := (config p)\<lparr> auto_session_warning_threshold := Some (Fin 2) \<rparr>,
         saved_config := Some ((config p)\<lparr> auto_session_warning_threshold := Some (Fin 2) \<rparr>) \<rparr>,
      ThresholdAdjusted (Fin 2) (Fin 70))
   \<and> handle_threshold_setting (threshold_command @ ascii '' abcs'') p = (p, ThresholdUnitError)
   \<and> handle_threshold_setting (threshold_command @ ascii '' 90h'') p = (p, ThresholdRangeError)
   \<and> handle_threshold_setting (threshold_command @ ascii '' 2'') p = (p, ThresholdUnitError)
   \<and> handle_threshold_setting (threshold_command @ ascii '' 2h extra'') p = (p, ThresholdFormatError)
   \<and> handle_threshold_setting (threshold_command @ ascii '' abch'') p = (p, ThresholdNotNumber)
   \<and> distinct [ThresholdFormatError, ThresholdUnitError, ThresholdNotNumber, ThresholdRangeError]
   \<and> (snd (handle_threshold_setting content p) \<in>
         {ThresholdFormatError, ThresholdUnitError, ThresholdNotNumber, ThresholdRangeError}
       \<longrightarrow> fst (handle_threshold_setting content p) = p)"
proof -
  have g: "snd (handle_threshold_setting content p) \<in>
         {ThresholdFormatError, ThresholdUnitError, ThresholdNotNumber, ThresholdRangeError}
       \<longrightarrow> fst (handle_threshold_setting content p) = p"
    by (simp add: handle_threshold_setting_def Let_def split: option.splits)
  have c: "handle_threshold_setting (threshold_command @ ascii '' 2h'') p =
     (p\<lparr> warning_threshold := Fin 2,
         config := (config p)\<lparr> auto_session_warning_threshold := Some (Fin 2) \<rparr>,
         saved_config := Some ((config p)\<lparr> auto_session_warning_threshold := Some (Fin 2) \<rparr>) \<rparr>,
      ThresholdAdjusted (Fin 2) (Fin 70))"
    "handle_threshold_setting (threshold_command @ ascii '' abcs'') p = (p, ThresholdUnitError)"
    "handle_threshold_setting (threshold_command @ ascii '' 90h'') p = (p, ThresholdRangeError)"
    "handle_threshold_setting (threshold_command @ ascii '' 2'') p = (p, ThresholdUnitError)"
    "handle_threshold_setting (threshold_command @ ascii '' 2h extra'') p = (p, ThresholdFormatError)"
    "handle_threshold_setting (threshold_command @ ascii '' abch'') p = (p, ThresholdNotNumber)"
    by (simp_all add: threshold_defs)
  show ?thesis using g c by simp
qed

theorem handle_threshold_setting_cases_witness:
  "snd (handle_threshold_setting (threshold_command @ ascii '' 90h'') ready_plugin) = ThresholdRangeError
   \<and> warning_threshold (fst (handle_threshold_setting (threshold_command @ ascii '' 90h'') ready_plugin))
       = Fin 2
   \<and> warning_threshold (fst (handle_threshold_setting (threshold_command @ ascii '' 2h'')
        (ready_plugin\<lparr> warning_threshold := Fin 5 \<rparr>))) = Fin 2"
  using handle_threshold_setting_cases [of ready_plugin "threshold_command @ ascii '' 90h''"]
    handle_threshold_setting_cases [of "ready_plugin\<lparr> warning_threshold := Fin 5 \<rparr>" "[]"]
  by (simp add: concrete_defs)

section \<open>The text step and the fire-time record\<close>

lemma send_auto_warning_text_failed:
  assumes "send_txt e \<noteq> Status 200 (Success True)"
  shows "last_warning_time (plugin (send_auto_warning e w)) = last_warning_time (plugin w)
    \<and> tmp_files (send_auto_warning e w) = tmp_files w
    \<and> trace (send_auto_warning e w) = trace w @
        (case get_real_login_time (files e) of
           None \<Rightarrow> []
         | Some login \<Rightarrow>
             [PostSendTxt (warning_target (plugin w))
                (AutoWarningText (format_fixed 1 (Fin (online_hours (send_now e) login)))
                   (format_fixed 1 (remaining_hours (plugin w) (send_now e) login)))])"
proof (cases "get_real_login_time (files e)")
  case None
  then show ?thesis by (simp add: send_auto_warning_def load_info_keeps)
next
  case (Some login)
  define w1 where "w1 = w\<lparr> plugin := load_current_login_info (files e) (plugin w) \<rparr>"
  define body0 where "body0 = AutoWarningText (format_fixed 1 (Fin (online_hours (send_now e) login)))
       (format_fixed 1 (remaining_hours (plugin w1) (send_now e) login))"
  obtain ts w2 where r: "send_text_message e (warning_target (plugin w1)) body0 w1 = (ts, w2)"
    by (cases "send_text_message e (warning_target (plugin w1)) body0 w1") auto
  have ts: "\<not> ts"
    using send_text_message_success[of e "warning_target (plugin w1)" body0 w1] r assms by simp
  have eq: "send_auto_warning e w = w2"
    unfolding send_auto_warning_def Let_def Some option.case w1_def[symmetric]
      body0_def[symmetric] r prod.case using ts by simp
  have b: "body0 = AutoWarningText (format_fixed 1 (Fin (online_hours (send_now e) login)))
       (format_fixed 1 (remaining_hours (plugin w) (send_now e) login))"
    by (simp add: body0_def w1_def remaining_hours_load)
  show ?thesis
    unfolding eq Some option.case b[symmetric]
    using send_text_message_keeps[OF r] by (simp add: w1_def load_info_keeps)
qed

text \<open>
  C3. If the text step fails (\<open>SendTxt\<close> gets no response, a status other than 200, a
  body that is not a JSON object, or a \<open>Success\<close> that is not true), the workflow sends
  nothing after the text request: no QR request, no image, no scratch file; and it
  leaves the fire-time record as it was. The record is written exactly when a login time
  resolves and the text step succeeds, whatever becomes of the QR and image steps.
\<close>

theorem text_step_gates_record:
  "(send_txt e \<noteq> Status 200 (Success True) \<longrightarrow>
      last_warning_time (plugin (send_auto_warning e w)) = last_warning_time (plugin w)
    \<and> tmp_files (send_auto_warning e w) = tmp_files w
    \<and> trace (send_auto_warning e w) = trace w @
        (case get_real_login_time (files e) of
           None \<Rightarrow> []
         | Some login \<Rightarrow>
             [PostSendTxt (warning_target (plugin w))
                (AutoWarningText (format_fixed 1 (Fin (online_hours (send_now e) login)))
                   (format_fixed 1 (remaining_hours (plugin w) (send_now e) login)))]))
   \<and> (last_warning_time (plugin (send_auto_warning e w)) =
        (if get_real_login_time (files e) \<noteq> None \<and> send_txt e = Status 200 (Success True)
         then fire_time e else last_warning_time (plugin w)))"
  using send_auto_warning_text_failed[of e w] send_auto_warning_record[of e w] by blast

theorem text_step_gates_record_witness:
  "trace (send_auto_warning text_rejected start_world) =
     [PostSendTxt (ascii ''wxid_a'') (AutoWarningText (ascii ''70.0'') (ascii ''2.0''))]
   \<and> last_warning_time (plugin (send_auto_warning text_rejected start_world)) = 0
   \<and> last_warning_time (plugin (send_auto_warning image_rejected start_world)) = 1000103"
proof -
  have l: "get_real_login_time (files text_rejected) = Some 748000"
    "get_real_login_time (files image_rejected) = Some 748000"
    by (simp_all add: concrete_defs get_real_login_time_def)
  have f: "format_fixed 1 (Fin (online_hours 1000100 748000)) = ascii ''70.0''"
    "format_fixed 1 (remaining_hours ready_plugin 1000100 748000) = ascii ''2.0''"
    by (simp_all add: online_hours_def remaining_hours_def concrete_defs format_defs)
  have p: "send_txt text_rejected \<noteq> Status 200 (Success True)"
    "send_txt image_rejected = Status 200 (Success True)"
    "upload_img image_rejected \<noteq> Status 200 (Success True)"
    "send_now text_rejected = 1000100" "plugin start_world = ready_plugin"
    "trace start_world = []" "warning_target ready_plugin = ascii ''wxid_a''"
    "last_warning_time ready_plugin = 0" "fire_time image_rejected = 1000103"
    by (simp_all add: concrete_defs)
  show ?thesis
    using l f p text_step_gates_record [of text_rejected start_world]
      text_step_gates_record [of image_rejected start_world]
    by simp
qed

section \<open>The scratch file of the QR image\<close>





section \<open>The loop outlives exceptions\<close>

lemma wait_interval_running:
  "stop_after e = None \<Longrightarrow> is_running (plugin (wait_interval e n w)) = is_running (plugin w)"
  by (simp add: wait_interval_def emit_keeps)

lemma backoff_running:
  "stop_after e = None \<Longrightarrow> is_running (plugin (backoff e w)) = is_running (plugin w)"
  by (simp add: backoff_def Let_def emit_keeps)

lemma iteration_body_running:
  "stop_after e = None \<Longrightarrow>
   is_running (plugin (snd (iteration_body e w))) = is_running (plugin w)"
  by (simp add: iteration_body_def Let_def wait_interval_running send_auto_warning_keeps
      split: sum.splits)

lemma loop_iteration_running:
  assumes "stop_after e = None"
  shows "is_running (plugin (loop_iteration e w)) = is_running (plugin w)"
proof (cases "iteration_body e w")
  case (Pair x w1)
  then have "w1 = snd (iteration_body e w)" by simp
  then have "is_running (plugin w1) = is_running (plugin w)"
    using assms by (simp add: iteration_body_running)
  with Pair assms show ?thesis
    by (cases x) (simp_all add: loop_iteration_def backoff_running)
qed

lemma loop_exited: 
  "fst (background_check_loop es w) = Exited \<Longrightarrow>
   \<not> is_running (plugin (snd (background_check_loop es w)))"
  by (induction es arbitrary: w) (simp_all split: if_splits)

lemma loop_keeps_looping:
  "is_running (plugin w) \<Longrightarrow> \<forall>e\<in>set es. stop_after e = None \<Longrightarrow>
   fst (background_check_loop es w) = Looping"
  by (induction es arbitrary: w) (simp_all add: loop_iteration_running)

text \<open>
  C7. When an exception leaves the body of an iteration, the iteration ends with a log
  entry followed by a sleep of 60 seconds, and the loop goes on to the next iteration
  as long as \<open>is_running\<close> holds. The loop has exited only with \<open>is_running\<close> cleared;
  when no stop is requested it is still looping after any number of iterations,
  whatever exceptions they raise.
\<close>

theorem loop_survives_exceptions:
  "(fst (iteration_body e w) \<noteq> None \<longrightarrow>
      loop_iteration e w = backoff e (snd (iteration_body e w))
    \<and> trace (loop_iteration e w) = trace (snd (iteration_body e w)) @ [LogLoopError, Sleep 60])
   \<and> (is_running (plugin w) \<longrightarrow>
        background_check_loop (e # es) w = background_check_loop es (loop_iteration e w))
   \<and> (fst (background_check_loop es w) = Exited \<longrightarrow>
        \<not> is_running (plugin (snd (background_check_loop es w))))
   \<and> (is_running (plugin w) \<and> (\<forall>e\<in>set es. stop_after e = None) \<longrightarrow>
        fst (background_check_loop es w) = Looping)"
proof -
  have a: "loop_iteration e w = backoff e (snd (iteration_body e w))
    \<and> trace (loop_iteration e w) = trace (snd (iteration_body e w)) @ [LogLoopError, Sleep 60]"
    if "fst (iteration_body e w) \<noteq> None"
    using that
    by (cases "iteration_body e w")
       (auto simp: loop_iteration_def backoff_def Let_def emit_keeps stop_background_check_def
          split: option.splits)
  have b: "is_running (plugin w) \<longrightarrow>
      background_check_loop (e # es) w = background_check_loop es (loop_iteration e w)"
    by simp
  have c: "fst (background_check_loop es w) = Exited \<longrightarrow>
      \<not> is_running (plugin (snd (background_check_loop es w)))"
    using loop_exited by blast
  have d: "is_running (plugin w) \<and> (\<forall>e\<in>set es. stop_after e = None) \<longrightarrow>
      fst (background_check_loop es w) = Looping"
    using loop_keeps_looping by blast
  from a b c d show ?thesis by blast
qed

theorem loop_survives_exceptions_witness:
  "fst (iteration_body first_poll broken_interval) = Some ValueError
   \<and> is_running (plugin broken_interval)
   \<and> fst (background_check_loop [first_poll, second_poll] broken_interval) = Looping
   \<and> fst (background_check_loop [first_poll\<lparr> stop_after := Some 0 \<rparr>, second_poll] broken_interval)
       = Exited"
proof -
  have s: "should_send_warning (plugin broken_interval) (files first_poll) (eval_now first_poll)
      (eval_time first_poll)"
    by (simp add: should_send_warning_def concrete_defs Let_def get_real_login_time_def
        online_hours_def)
  have c: "check_interval_hours (plugin w) = NaN \<Longrightarrow> \<not> run_raises e \<Longrightarrow>
      fst (iteration_body e w) = Some ValueError" for e w
    by (simp add: iteration_body_def Let_def send_auto_warning_keeps interval_seconds_def)
  have i: "fst (iteration_body first_poll broken_interval) = Some ValueError"
    "fst (iteration_body (first_poll\<lparr> stop_after := Some 0 \<rparr>) broken_interval) = Some ValueError"
    by (rule c; simp add: concrete_defs)+
  have r: "is_running (plugin broken_interval)"
    by (simp add: concrete_defs)
  have n: "\<forall>e\<in>set [first_poll, second_poll]. stop_after e = None"
    by (simp add: concrete_defs)
  have x: "\<not> is_running (plugin (backoff (first_poll\<lparr> stop_after := Some 0 \<rparr>) w))" for w
    by (simp add: backoff_def Let_def stop_background_check_def)
  note T1 = loop_survives_exceptions [of first_poll broken_interval "[first_poll, second_poll]"]
  note T2 = loop_survives_exceptions [of "first_poll\<lparr> stop_after := Some 0 \<rparr>" broken_interval
      "[second_poll]"]
  from T1 r n have L: "fst (background_check_loop [first_poll, second_poll] broken_interval) = Looping"
    by blast
  from i(2) have "fst (iteration_body (first_poll\<lparr> stop_after := Some 0 \<rparr>) broken_interval) \<noteq> None"
    by simp
  with T2 have "loop_iteration (first_poll\<lparr> stop_after := Some 0 \<rparr>) broken_interval =
      backoff (first_poll\<lparr> stop_after := Some 0 \<rparr>)
        (snd (iteration_body (first_poll\<lparr> stop_after := Some 0 \<rparr>) broken_interval))"
    by blast
  then have "\<not> is_running (plugin (loop_iteration (first_poll\<lparr> stop_after := Some 0 \<rparr>)
      broken_interval))"
    using x by simp
  moreover from T2 r have "background_check_loop [first_poll\<lparr> stop_after := Some 0 \<rparr>, second_poll]
      broken_interval = background_check_loop [second_poll]
        (loop_iteration (first_poll\<lparr> stop_after := Some 0 \<rparr>) broken_interval)"
    by blast
  ultimately have E: "fst (background_check_loop [first_poll\<lparr> stop_after := Some 0 \<rparr>, second_poll]
      broken_interval) = Exited"
    by simp
  from i(1) r L E show ?thesis by blast
qed

section \<open>Decimals in the composed messages\<close>

lemma emit_ext: "prefix xs (trace w) \<Longrightarrow> prefix xs (trace (emit a w))"
  by (simp add: emit_keeps prefix_def) auto

lemma cleanup_ext: "prefix xs (trace w) \<Longrightarrow> prefix xs (trace (cleanup e p w))"
  by (simp add: cleanup_def Let_def emit_ext)

lemma ensure_ext: "prefix xs (trace w) \<Longrightarrow> prefix xs (trace (ensure_login_info e w))"
  by (simp add: ensure_login_info_keeps)

lemma send_image_ext:
  "prefix xs (trace w) \<Longrightarrow> prefix xs (trace (snd (send_image_message e t p w)))"
  by (simp add: send_image_message_def Let_def emit_ext ensure_ext
      split: response.splits body.splits)

lemma download_ext:
  "prefix xs (trace w) \<Longrightarrow> prefix xs (trace (snd (download_qr_image e u i w)))"
  by (simp add: download_qr_image_def Let_def emit_ext
      split: response.splits save_outcome.splits)

lemma send_login_qr_code_ext:
  "prefix xs (trace w) \<Longrightarrow> prefix xs (trace (snd (send_login_qr_code e t w)))"
  by (simp add: send_login_qr_code_def Let_def case_prod_beta emit_ext cleanup_ext
      send_image_ext download_ext
      split: response.splits qr_body.splits option.splits)

lemma send_auto_warning_first:
  assumes "get_real_login_time (files e) = Some login"
  shows "take (Suc (length (trace w))) (trace (send_auto_warning e w)) =
     trace w @ [PostSendTxt (warning_target (plugin w))
        (AutoWarningText (format_fixed 1 (Fin (online_hours (send_now e) login)))
           (format_fixed 1 (remaining_hours (plugin w) (send_now e) login)))]"
proof -
  define w1 where "w1 = w\<lparr> plugin := load_current_login_info (files e) (plugin w) \<rparr>"
  define body0 where "body0 = AutoWarningText (format_fixed 1 (Fin (online_hours (send_now e) login)))
       (format_fixed 1 (remaining_hours (plugin w1) (send_now e) login))"
  obtain ts w2 where r: "send_text_message e (warning_target (plugin w1)) body0 w1 = (ts, w2)"
    by (cases "send_text_message e (warning_target (plugin w1)) body0 w1") auto
  obtain qs w3 where q: "send_login_qr_code e (warning_target (plugin w2)) (emit (Sleep 1) w2) = (qs, w3)"
    by (cases "send_login_qr_code e (warning_target (plugin w2)) (emit (Sleep 1) w2)") auto
  have eq: "send_auto_warning e w =
      (if ts then w3\<lparr> plugin := (plugin w3)\<lparr> last_warning_time := fire_time e \<rparr> \<rparr> else w2)"
    unfolding send_auto_warning_def Let_def assms option.case w1_def[symmetric]
      body0_def[symmetric] r prod.case q by (rule refl)
  have b: "AutoWarningText (format_fixed 1 (Fin (online_hours (send_now e) login)))
       (format_fixed 1 (remaining_hours (plugin w) (send_now e) login)) = body0"
    by (simp add: body0_def w1_def remaining_hours_load)
  have t2: "trace w2 = trace w @ [PostSendTxt (warning_target (plugin w)) body0]"
    using send_text_message_keeps[OF r] by (simp add: w1_def load_info_keeps)
  have "prefix (trace w2) (trace (snd (send_login_qr_code e (warning_target (plugin w2))
      (emit (Sleep 1) w2))))"
    by (intro send_login_qr_code_ext emit_ext) simp
  then have "prefix (trace w2) (trace w3)" unfolding q by simp
  then have "prefix (trace w2) (trace (send_auto_warning e w))"
    by (simp add: eq)
  then obtain ys where "trace (send_auto_warning e w) = trace w2 @ ys"
    by (auto simp: prefix_def)
  then show ?thesis
    unfolding b by (simp add: t2)
qed

lemma str_nat_digits: "\<forall>c\<in>set (str_nat n). 48 \<le> c \<and> c \<le> 57"
proof (induction n rule: str_nat.induct)
  case (1 n)
  show ?case
  proof (cases "n < 10")
    case True
    then show ?thesis by (subst str_nat.simps) simp
  next
    case False
    have "n mod 10 < 10" by simp
    then have "48 + n mod 10 \<le> 57" by linarith
    with False 1 show ?thesis by (subst str_nat.simps) auto
  qed
qed

lemma format_fixed_0_no_point: "46 \<notin> set (format_fixed 0 x)"
proof (cases x)
  case (Fin r)
  have "46 \<notin> set (str_nat n)" for n using str_nat_digits[of n] by auto
  with Fin show ?thesis by (simp add: format_fixed_def Let_def)
qed (simp_all add: format_fixed_def ascii_def)

lemma format_fixed_1_one_decimal:
  "\<exists>ds d. format_fixed 1 (Fin r) = ds @ [46, d] \<and> 48 \<le> d \<and> d \<le> 57"
proof -
  define n where "n = nat (round_half_even (\<bar>r\<bar> * 10))"
  have m: "n mod 10 < 10" by simp
  have s: "str_nat (n mod 10) = [48 + n mod 10]"
    using m by (subst str_nat.simps) simp
  have d: "48 \<le> 48 + n mod 10 \<and> 48 + n mod 10 \<le> 57" using m by linarith
  have "format_fixed 1 (Fin r) =
      ((if r < 0 then [45] else []) @ str_nat (n div 10)) @ [46, 48 + n mod 10]"
    using s by (simp add: format_fixed_def Let_def n_def[symmetric] zfill_def)
  with d show ?thesis by blast
qed

text \<open>
  C6, as stated, fails for the automatic warning: \<open>_send_auto_warning\<close> formats both
  numbers with one decimal, as the status query does. After 70.5 hours online the text
  it sends carries \<open>70.5\<close> and \<open>1.5\<close>, where zero decimals would give \<open>70\<close> and \<open>2\<close>.
\<close>

theorem auto_warning_decimals_counterexample:
  "take 1 (trace (send_auto_warning half_hour_poll start_world)) =
     [PostSendTxt (ascii ''wxid_a'') (AutoWarningText (ascii ''70.5'') (ascii ''1.5''))]
   \<and> format_fixed 0 (Fin (online_hours 1001800 748000)) = ascii ''70''
   \<and> format_fixed 0 (remaining_hours ready_plugin 1001800 748000) = ascii ''2''
   \<and> ascii ''70.5'' \<noteq> ascii ''70'' \<and> ascii ''1.5'' \<noteq> ascii ''2''"
proof -
  have l: "get_real_login_time (files half_hour_poll) = Some 748000"
    by (simp add: half_hour_poll_def concrete_defs get_real_login_time_def)
  have f: "format_fixed 1 (Fin (online_hours 1001800 748000)) = ascii ''70.5''"
    "format_fixed 1 (remaining_hours ready_plugin 1001800 748000) = ascii ''1.5''"
    "format_fixed 0 (Fin (online_hours 1001800 748000)) = ascii ''70''"
    "format_fixed 0 (remaining_hours ready_plugin 1001800 748000) = ascii ''2''"
    by (simp_all add: online_hours_def remaining_hours_def concrete_defs format_defs)
  have p: "send_now half_hour_poll = 1001800" "plugin start_world = ready_plugin"
    "trace start_world = []" "warning_target ready_plugin = ascii ''wxid_a''"
    by (simp_all add: half_hour_poll_def concrete_defs)
  show ?thesis
    using send_auto_warning_first[OF l, of start_world] f p by (simp add: ascii_def)
qed

text \<open>
  C6, amended: the online and remaining hours are formatted with one decimal place in
  the manual status query and in the automatic background warning, and with zero
  decimal places in the test command. A number formatted with zero decimals has no
  decimal point; a finite number formatted with one decimal ends in a point and one
  digit.
\<close>

theorem message_decimals:
  "(current_wxid (load_current_login_info fs p) \<noteq> [] \<and> get_real_login_time fs = Some login \<longrightarrow>
      snd (handle_status_query fs now p) =
        (if pf_less (Fin 0) (remaining_hours p now login)
         then StatusRemaining (format_fixed 1 (Fin (online_hours now login)))
                (format_fixed 1 (remaining_hours p now login))
         else StatusExpired (format_fixed 1 (Fin (online_hours now login))))
    \<and> (from_user_id m \<noteq> None \<or> sender_wxid m \<noteq> None \<longrightarrow>
         fst (snd (handle_warning_test fs now m p)) =
           Reply (TestText (format_fixed 0 (Fin (online_hours now login)))
                    (format_fixed 0 (remaining_hours p now login)))))
   \<and> (get_real_login_time (files e) = Some login \<longrightarrow>
        take (Suc (length (trace w))) (trace (send_auto_warning e w)) =
          trace w @ [PostSendTxt (warning_target (plugin w))
            (AutoWarningText (format_fixed 1 (Fin (online_hours (send_now e) login)))
               (format_fixed 1 (remaining_hours (plugin w) (send_now e) login)))])
   \<and> 46 \<notin> set (format_fixed 0 x)
   \<and> (\<exists>ds d. format_fixed 1 (Fin r) = ds @ [46, d] \<and> 48 \<le> d \<and> d \<le> 57)"
proof -
  have a: "snd (handle_status_query fs now p) =
        (if pf_less (Fin 0) (remaining_hours p now login)
         then StatusRemaining (format_fixed 1 (Fin (online_hours now login)))
                (format_fixed 1 (remaining_hours p now login))
         else StatusExpired (format_fixed 1 (Fin (online_hours now login))))"
    if "current_wxid (load_current_login_info fs p) \<noteq> []" "get_real_login_time fs = Some login"
    using that by (simp add: handle_status_query_def Let_def remaining_hours_load)
  have b: "fst (snd (handle_warning_test fs now m p)) =
           Reply (TestText (format_fixed 0 (Fin (online_hours now login)))
                    (format_fixed 0 (remaining_hours p now login)))"
    if "current_wxid (load_current_login_info fs p) \<noteq> []" "get_real_login_time fs = Some login"
      "from_user_id m \<noteq> None \<or> sender_wxid m \<noteq> None"
    using that by (auto simp: handle_warning_test_def Let_def remaining_hours_load split: option.splits)
  from a b send_auto_warning_first[of e login w] format_fixed_0_no_point[of x]
    format_fixed_1_one_decimal[of r]
  show ?thesis by blast
qed

theorem message_decimals_witness:
  "snd (handle_status_query login_files 1001800 ready_plugin) =
     StatusRemaining (ascii ''70.5'') (ascii ''1.5'')
   \<and> fst (snd (handle_warning_test login_files 1001800
        \<lparr> from_user_id = Some (ascii ''wxid_c''), sender_wxid = None \<rparr> ready_plugin)) =
     Reply (TestText (ascii ''70'') (ascii ''2''))
   \<and> take 1 (trace (send_auto_warning half_hour_poll start_world)) =
     [PostSendTxt (ascii ''wxid_a'') (AutoWarningText (ascii ''70.5'') (ascii ''1.5''))]"
proof -
  have l: "get_real_login_time login_files = Some 748000"
    "get_real_login_time (files half_hour_poll) = Some 748000"
    by (simp_all add: half_hour_poll_def concrete_defs get_real_login_time_def)
  have f: "format_fixed 1 (Fin (online_hours 1001800 748000)) = ascii ''70.5''"
    "format_fixed 1 (remaining_hours ready_plugin 1001800 748000) = ascii ''1.5''"
    "format_fixed 0 (Fin (online_hours 1001800 748000)) = ascii ''70''"
    "format_fixed 0 (remaining_hours ready_plugin 1001800 748000) = ascii ''2''"
    "pf_less (Fin 0) (remaining_hours ready_plugin 1001800 748000)"
    by (simp_all add: online_hours_def remaining_hours_def concrete_defs format_defs)
  have p: "send_now half_hour_poll = 1001800" "plugin start_world = ready_plugin"
    "trace start_world = []" "warning_target ready_plugin = ascii ''wxid_a''"
    "current_wxid (load_current_login_info login_files ready_plugin) \<noteq> []"
    by (simp_all add: half_hour_poll_def concrete_defs load_current_login_info_def)
  show ?thesis
    using l f p
      message_decimals [of login_files ready_plugin 748000 1001800
        "\<lparr> from_user_id = Some (ascii ''wxid_c''), sender_wxid = None \<rparr>"
        half_hour_poll start_world]
    by simp
qed

end
